theory Spec2Isabelle
  imports Main "HOL-Library.Word" "HOL-Library.Char_ord" "HOL-Library.List_Lexorder"
    "HOL-Library.AList"
begin

section \<open>Values and errors of the Go program\<close>

text \<open>
  The package \<open>declcfg\<close> (file \<open>alpha/declcfg/declcfg.go\<close>) decodes a JSON document into a
  \<open>Meta\<close> record and renders decoding errors. Go strings and byte slices are byte
  sequences: both are \<open>string\<close> here (a list of 8-bit characters).

  A value decoded into a Go \<open>interface{}\<close> by \<open>encoding/json\<close> is \<open>nil\<close>, a \<open>bool\<close>,
  a \<open>float64\<close>, a \<open>string\<close>, a \<open>[]interface{}\<close> or a \<open>map[string]interface{}\<close>. A
  \<open>float64\<close> is its 64 bits. A Go map is an association list with distinct keys, in
  ascending key order (so that equal maps are equal lists); the order in which a
  \<open>range\<close> statement visits a map is not the order of this list, see \<open>MapRange\<close>
  below.
\<close>

type_synonym float64 = "64 word"

datatype jvalue =
    JNil
  | JBool bool
  | JFloat float64
  | JString string
  | JArray "jvalue list"
  | JObject "(string \<times> jvalue) list"

type_synonym gomap = "(string \<times> jvalue) list"

text \<open>
  The errors the program returns or handles. \<open>UnmarshalTypeError\<close> and \<open>SyntaxError\<close>
  are the two error types of \<open>encoding/json\<close> that carry a byte offset; each is given
  by the text of its \<open>Error()\<close> method and its \<open>Offset\<close> field. \<open>DuplicateKeys\<close> is
  \<open>fmt.Errorf("duplicate keys for key %q: %v", foldedKey, sets.List(keys))\<close>,
  \<open>ExpectedString\<close> is
  \<open>fmt.Errorf("expected value for key %q to be a string, got %t: %v", key, v, v)\<close>, both
  by their arguments, \<open>Aggregate\<close> is the result of \<open>utilerrors.NewAggregate\<close>,
  \<open>OtherError\<close> is any other error by its text, and \<open>Wrapped\<close> is an error that wraps
  another one (its own text and the wrapped error).
\<close>

datatype go_error =
    UnmarshalTypeError string int
  | SyntaxError string int
  | DuplicateKeys string "string list"
  | ExpectedString string jvalue
  | Aggregate "go_error list"
  | OtherError string
  | Wrapped string go_error

text \<open>A call either panics (a run-time panic of Go, with its message) or returns.\<close>

datatype 'a outcome = Panic string | Done 'a

record Meta =
  Schema :: string
  Package :: string
  Name :: string
  Blob :: string

section \<open>Encoding\<close>

text \<open>
  \<^verbatim>\<open>
  func (m Meta) MarshalJSON() ([]byte, error) {
      return m.Blob, nil
  }
  \<close>
  The result is the pair of the bytes and the error (\<open>None\<close> is \<open>nil\<close>).
\<close>

definition MarshalJSON :: "Meta \<Rightarrow> string \<times> go_error option" where
  "MarshalJSON m = (Blob m, None)"

section \<open>The libraries the program calls\<close>

text \<open>
  The program calls \<open>encoding/json\<close>, \<open>golang.org/x/text/cases\<close> and the Go run time.
  They are not part of the repository: the functions of the program take them as a
  parameter, a record of
  \<^item> \<open>cases_Fold\<close>: \<open>cases.Fold().String\<close>, Unicode case folding;
  \<^item> \<open>MapRange\<close>: the order in which a \<open>range\<close> statement (or \<open>UnsortedList\<close>) visits
    the keys of a map, given as a list; Go leaves the order unspecified;
  \<^item> \<open>json_Unmarshal\<close>: \<open>json.Unmarshal(blob, &blobMap)\<close> for an empty
    \<open>blobMap := map[string]interface{}{}\<close>: the error, or the map after the call
    (\<open>None\<close> is the nil map);
  \<^item> \<open>json_Encode\<close>: \<open>Encode\<close> of a \<open>json.Encoder\<close> on an empty buffer after
    \<open>SetEscapeHTML(escape)\<close>: the error, or the bytes of the buffer;
  \<^item> \<open>json_Indent\<close>: \<open>json.Indent(&pretty, data, "", "    ")\<close> on an empty buffer:
    the error, or the bytes of the buffer.
\<close>

record golib =
  cases_Fold :: "string \<Rightarrow> string"
  MapRange :: "string list \<Rightarrow> string list"
  json_Unmarshal :: "string \<Rightarrow> go_error + gomap option"
  json_Encode :: "bool \<Rightarrow> gomap option \<Rightarrow> go_error + string"
  json_Indent :: "string \<Rightarrow> go_error + string"

text \<open>
  A \<open>range\<close> statement visits every key of the map once: \<open>MapRange\<close> permutes a list
  of distinct keys.
\<close>

definition range_ok :: "golib \<Rightarrow> bool" where
  "range_ok L = (\<forall>ks. distinct ks \<longrightarrow> set (MapRange L ks) = set ks \<and> distinct (MapRange L ks))"

section \<open>Decoding\<close>

text \<open>
  \<open>utilerrors.NewAggregate\<close>: nil for the empty list, else the aggregate of the errors
  (a list of the model has no nil entry to drop).
\<close>

definition NewAggregate :: "go_error list \<Rightarrow> go_error option" where
  "NewAggregate errlist = (if length errlist = 0 then None else Some (Aggregate errlist))"

text \<open>
  The first loop of \<open>extractUniqueMetaKeys\<close>: \<open>keySets\<close> maps a folded key to the set
  of the keys of \<open>blobMap\<close> that fold to it. A \<open>sets.Set[string]\<close> is a list without
  duplicates; \<open>sets.List\<close> sorts it, \<open>len\<close> is its length.
  \<^verbatim>\<open>
  for key := range blobMap {
      foldKey := folder.String(key)
      if _, ok := keySets[foldKey]; !ok {
          keySets[foldKey] = sets.New[string]()
      }
      keySets[foldKey].Insert(key)
  }
  \<close>
\<close>

type_synonym keysets = "(string \<times> string list) list"

definition keySets_step :: "golib \<Rightarrow> keysets \<Rightarrow> string \<Rightarrow> keysets" where
  "keySets_step L keySets key =
     (let foldKey = cases_Fold L key;
          keys = (case map_of keySets foldKey of None \<Rightarrow> [] | Some ks \<Rightarrow> ks)
      in AList.update foldKey (List.insert key keys) keySets)"

definition keySets_of :: "golib \<Rightarrow> gomap \<Rightarrow> keysets" where
  "keySets_of L blobMap = foldl (keySets_step L) [] (MapRange L (map fst blobMap))"

text \<open>
  The second loop:
  \<^verbatim>\<open>
  for foldedKey, keys := range keySets {
      if len(keys) != 1 {
          dupErrs = append(dupErrs, fmt.Errorf("duplicate keys for key %q: %v", foldedKey, sets.List(keys)))
      }
  }
  \<close>
\<close>

definition dupErrs_of :: "golib \<Rightarrow> keysets \<Rightarrow> go_error list" where
  "dupErrs_of L keySets =
     concat (map (\<lambda>foldedKey.
        case map_of keySets foldedKey of
          None \<Rightarrow> []
        | Some keys \<Rightarrow> if length keys \<noteq> 1 then [DuplicateKeys foldedKey (sort keys)] else [])
      (MapRange L (map fst keySets)))"

text \<open>
  The pointers \<open>&m.Schema\<close>, \<open>&m.Package\<close> and \<open>&m.Name\<close>, and the assignment through
  one of them.
\<close>

datatype meta_field = SchemaField | PackageField | NameField

fun set_field :: "meta_field \<Rightarrow> string \<Rightarrow> Meta \<Rightarrow> Meta" where
  "set_field SchemaField v m = m\<lparr>Schema := v\<rparr>"
| "set_field PackageField v m = m\<lparr>Package := v\<rparr>"
| "set_field NameField v m = m\<lparr>Name := v\<rparr>"

text \<open>
  \<^verbatim>\<open>
  metaMap := map[string]*string{
      folder.String("schema"):  &m.Schema,
      folder.String("package"): &m.Package,
      folder.String("name"):    &m.Name,
  }
  \<close>
  A later entry of the literal replaces an earlier one with the same key.
\<close>

definition metaMap :: "golib \<Rightarrow> (string \<times> meta_field) list" where
  "metaMap L =
     AList.update (cases_Fold L ''name'') NameField
       (AList.update (cases_Fold L ''package'') PackageField
         (AList.update (cases_Fold L ''schema'') SchemaField []))"

text \<open>
  The third loop, over the folded keys of \<open>metaMap\<close> in the order of the \<open>range\<close>
  statement. It assigns through the pointer as it goes, and returns at the first value
  that is not a string.
  \<^verbatim>\<open>
  for foldedKey, ptr := range metaMap {
      if _, ok := keySets[foldedKey]; !ok {
          continue
      }
      key := keySets[foldedKey].UnsortedList()[0]
      if _, ok := blobMap[key]; !ok {
          continue
      }
      v, ok := blobMap[key].(string)
      if !ok {
          return fmt.Errorf("expected value for key %q to be a string, got %t: %v", key, blobMap[key], blobMap[key])
      }
      *ptr = v
  }
  return nil
  \<close>
\<close>

fun metaLoop :: "golib \<Rightarrow> keysets \<Rightarrow> gomap \<Rightarrow> string list \<Rightarrow> Meta
    \<Rightarrow> (go_error option \<times> Meta) outcome" where
  "metaLoop L keySets blobMap [] m = Done (None, m)"
| "metaLoop L keySets blobMap (foldedKey # rest) m =
     (case map_of (metaMap L) foldedKey of
        None \<Rightarrow> metaLoop L keySets blobMap rest m
      | Some ptr \<Rightarrow>
          (case map_of keySets foldedKey of
             None \<Rightarrow> metaLoop L keySets blobMap rest m
           | Some keys \<Rightarrow>
               (case MapRange L keys of
                  [] \<Rightarrow> Panic ''index out of range [0] with length 0''
                | key # _ \<Rightarrow>
                    (case map_of blobMap key of
                       None \<Rightarrow> metaLoop L keySets blobMap rest m
                     | Some (JString v) \<Rightarrow> metaLoop L keySets blobMap rest (set_field ptr v m)
                     | Some other \<Rightarrow> Done (Some (ExpectedString key other), m)))))"

text \<open>
  \<open>extractUniqueMetaKeys(blobMap, m)\<close>: the returned error and the record \<open>m\<close> points
  to after the call. A nil map has no key.
\<close>

definition extractUniqueMetaKeys :: "golib \<Rightarrow> gomap option \<Rightarrow> Meta
    \<Rightarrow> (go_error option \<times> Meta) outcome" where
  "extractUniqueMetaKeys L blobMap m =
     (let entries = (case blobMap of None \<Rightarrow> [] | Some kvs \<Rightarrow> kvs);
          keySets = keySets_of L entries;
          dupErrs = dupErrs_of L keySets
      in if length dupErrs > 0 then Done (NewAggregate dupErrs, m)
         else metaLoop L keySets entries (MapRange L (map fst (metaMap L))) m)"

text \<open>
  \<^verbatim>\<open>
  func (m *Meta) UnmarshalJSON(blob []byte) error {
      blobMap := map[string]interface{}{}
      if err := json.Unmarshal(blob, &blobMap); err != nil {
          return err
      }
      if err := extractUniqueMetaKeys(blobMap, m); err != nil {
          return err
      }
      buf := bytes.Buffer{}
      enc := json.NewEncoder(&buf)
      enc.SetEscapeHTML(false)
      if err := enc.Encode(blobMap); err != nil {
          return err
      }
      m.Blob = buf.Bytes()
      return nil
  }
  \<close>
  The result is the returned error and the record after the call.
\<close>

definition UnmarshalJSON :: "golib \<Rightarrow> Meta \<Rightarrow> string \<Rightarrow> (go_error option \<times> Meta) outcome" where
  "UnmarshalJSON L m blob =
     (case json_Unmarshal L blob of
        Inl err \<Rightarrow> Done (Some err, m)
      | Inr blobMap \<Rightarrow>
          (case extractUniqueMetaKeys L blobMap m of
             Panic p \<Rightarrow> Panic p
           | Done (Some err, m') \<Rightarrow> Done (Some err, m')
           | Done (None, m') \<Rightarrow>
               (case json_Encode L False blobMap of
                  Inl err \<Rightarrow> Done (Some err, m')
                | Inr buf \<Rightarrow> Done (None, m'\<lparr>Blob := buf\<rparr>))))"

section \<open>Rendering a decoding error\<close>

text \<open>The verb \<open>%d\<close> of \<open>fmt\<close> on an \<open>int64\<close>: decimal digits, with a minus sign.\<close>

fun digits_of :: "nat \<Rightarrow> nat \<Rightarrow> string" where
  "digits_of 0 n = []"
| "digits_of (Suc fuel) n =
     (if n < 10 then [char_of (48 + n)]
      else digits_of fuel (n div 10) @ [char_of (48 + n mod 10)])"

definition fmt_d :: "int \<Rightarrow> string" where
  "fmt_d i = (if i < 0 then CHR ''-'' # digits_of (Suc (nat (- i))) (nat (- i))
              else digits_of (Suc (nat i)) (nat i))"

text \<open>
  The loop of \<open>formatUnmarshallErrorString\<close> that moves the offset into the indented
  text. \<open>pString[pOffset]\<close> panics when \<open>pOffset\<close> is not below the length.
  \<^verbatim>\<open>
  for origOffset = 0; origOffset < offset; {
      if pString[pOffset] != '\n' && pString[pOffset] != ' ' {
          origOffset++
      }
      pOffset++
  }
  \<close>
\<close>

function offsetLoop :: "string \<Rightarrow> int \<Rightarrow> int \<Rightarrow> nat \<Rightarrow> nat outcome" where
  "offsetLoop pString offset origOffset pOffset =
     (if origOffset < offset then
        (if pOffset < length pString then
           offsetLoop pString offset
             (if pString ! pOffset \<noteq> CHR 0x0A \<and> pString ! pOffset \<noteq> CHR '' ''
              then origOffset + 1 else origOffset)
             (pOffset + 1)
         else Panic ''index out of range'')
      else Done pOffset)"
  by pat_completeness auto
termination
  by (relation "measure (\<lambda>(pString, offset, origOffset, pOffset). length pString - pOffset)") auto

declare offsetLoop.simps [simp del]

text \<open>
  \<^verbatim>\<open>
  func formatUnmarshallErrorString(data []byte, errmsg string, offset int64) string {
      sb := new(strings.Builder)
      _, _ = sb.WriteString(fmt.Sprintf("%s at offset %d (indicated by <==)\n ", errmsg, offset))
      var pretty bytes.Buffer
      err := json.Indent(&pretty, data, "", "    ")
      if err == nil {
          pString := pretty.String()
          var pOffset, origOffset int64
          origOffset = 0
          for origOffset = 0; origOffset < offset; { ... }
          _, _ = sb.WriteString(pString[:pOffset])
          _, _ = sb.WriteString(" <== ")
          _, _ = sb.WriteString(pString[pOffset:])
      } else {
          for i := int64(0); i < offset; i++ {
              _ = sb.WriteByte(data[i])
          }
          _, _ = sb.WriteString(" <== ")
          _, _ = sb.Write(data[offset:])
      }
      return sb.String()
  }
  \<close>
  In the second branch \<open>data[i]\<close> panics when \<open>offset\<close> exceeds the length of \<open>data\<close>,
  and \<open>data[offset:]\<close> panics when \<open>offset\<close> is negative.
\<close>

definition header :: "string \<Rightarrow> int \<Rightarrow> string" where
  "header errmsg offset =
     errmsg @ '' at offset '' @ fmt_d offset @ '' (indicated by <==)'' @ [CHR 0x0A, CHR '' '']"

definition formatUnmarshallErrorString :: "golib \<Rightarrow> string \<Rightarrow> string \<Rightarrow> int \<Rightarrow> string outcome" where
  "formatUnmarshallErrorString L data errmsg offset =
     (case json_Indent L data of
        Inr pString \<Rightarrow>
          (case offsetLoop pString offset 0 0 of
             Panic p \<Rightarrow> Panic p
           | Done pOffset \<Rightarrow>
               Done (header errmsg offset @ take pOffset pString @ '' <== '' @ drop pOffset pString))
      | Inl err \<Rightarrow>
          (if offset < 0 then Panic ''slice bounds out of range''
           else if int (length data) < offset then Panic ''index out of range''
           else Done (header errmsg offset @ take (nat offset) data @ '' <== ''
                      @ drop (nat offset) data)))"

text \<open>
  \<open>errors.As\<close> for the two error types with an offset: the first error of the chain of
  wrapped errors that has the type.
\<close>

fun as_UnmarshalTypeError :: "go_error \<Rightarrow> (string \<times> int) option" where
  "as_UnmarshalTypeError (UnmarshalTypeError msg off) = Some (msg, off)"
| "as_UnmarshalTypeError (Wrapped msg err) = as_UnmarshalTypeError err"
| "as_UnmarshalTypeError err = None"

fun as_SyntaxError :: "go_error \<Rightarrow> (string \<times> int) option" where
  "as_SyntaxError (SyntaxError msg off) = Some (msg, off)"
| "as_SyntaxError (Wrapped msg err) = as_SyntaxError err"
| "as_SyntaxError err = None"

text \<open>
  \<^verbatim>\<open>
  func resolveUnmarshalErr(data []byte, err error) string {
      var te *json.UnmarshalTypeError
      if errors.As(err, &te) {
          return formatUnmarshallErrorString(data, te.Error(), te.Offset)
      }
      var se *json.SyntaxError
      if errors.As(err, &se) {
          return formatUnmarshallErrorString(data, se.Error(), se.Offset)
      }
      return err.Error()
  }
  \<close>
  The last argument is the text of \<open>err.Error()\<close>.
\<close>

definition resolveUnmarshalErr :: "golib \<Rightarrow> string \<Rightarrow> go_error \<Rightarrow> string \<Rightarrow> string outcome" where
  "resolveUnmarshalErr L data err text =
     (case as_UnmarshalTypeError err of
        Some (msg, off) \<Rightarrow> formatUnmarshallErrorString L data msg off
      | None \<Rightarrow>
          (case as_SyntaxError err of
             Some (msg, off) \<Rightarrow> formatUnmarshallErrorString L data msg off
           | None \<Rightarrow> Done text))"

section \<open>The libraries as Go implements them\<close>

text \<open>
  Models of the library functions, after the sources of \<open>encoding/json\<close>
  (\<open>scanner.go\<close>, \<open>indent.go\<close>, \<open>decode.go\<close>, \<open>encode.go\<close>) and of \<open>strconv\<close>.
  The theorems about the program hold for every library; these models give the library
  at concrete documents.
\<close>

subsection \<open>The scanner\<close>

datatype step_fn =
    StateBeginValueOrEmpty | StateBeginValue | StateBeginStringOrEmpty | StateBeginString
  | StateEndValue | StateEndTop
  | StateInString | StateInStringEsc | StateInStringEscU | StateInStringEscU1
  | StateInStringEscU12 | StateInStringEscU123
  | StateNeg | State1 | State0 | StateDot | StateDot0 | StateE | StateESign | StateE0
  | StateT | StateTr | StateTru | StateF | StateFa | StateFal | StateFals
  | StateN | StateNu | StateNul
  | StateError

datatype parse_state = ParseObjectKey | ParseObjectValue | ParseArrayValue

datatype scan_code =
    ScanContinue | ScanBeginLiteral | ScanBeginObject | ScanObjectKey | ScanObjectValue
  | ScanEndObject | ScanBeginArray | ScanArrayValue | ScanEndArray | ScanSkipSpace
  | ScanEnd | ScanError

record scanner =
  step :: step_fn
  endTop :: bool
  parseState :: "parse_state list"
  err :: "go_error option"
  bytes :: int

definition newScanner :: scanner where
  "newScanner = \<lparr>step = StateBeginValue, endTop = False, parseState = [], err = None, bytes = 0\<rparr>"

definition isSpace :: "char \<Rightarrow> bool" where
  "isSpace c = (c = CHR '' '' \<or> c = CHR 0x09 \<or> c = CHR 0x0D \<or> c = CHR 0x0A)"

definition hexdigit :: "nat \<Rightarrow> char" where
  "hexdigit n = (if n < 10 then char_of (48 + n) else char_of (87 + n))"

definition quoteChar :: "char \<Rightarrow> string" where
  "quoteChar c =
     (if c = CHR 0x27 then [CHR 0x27, CHR 0x5C, CHR 0x27, CHR 0x27]
      else if c = CHR 0x22 then [CHR 0x27, CHR 0x22, CHR 0x27]
      else [CHR 0x27] @
        (if c = CHR 0x5C then [CHR 0x5C, CHR 0x5C]
         else if c = CHR 0x07 then [CHR 0x5C, CHR ''a'']
         else if c = CHR 0x08 then [CHR 0x5C, CHR ''b'']
         else if c = CHR 0x0C then [CHR 0x5C, CHR ''f'']
         else if c = CHR 0x0A then [CHR 0x5C, CHR ''n'']
         else if c = CHR 0x0D then [CHR 0x5C, CHR ''r'']
         else if c = CHR 0x09 then [CHR 0x5C, CHR ''t'']
         else if c = CHR 0x0B then [CHR 0x5C, CHR ''v'']
         else if c < CHR 0x20 \<or> c = CHR 0x7F then
           [CHR 0x5C, CHR ''x'', hexdigit (of_char c div 16), hexdigit (of_char c mod 16)]
         else if c < CHR 0x80 then [c]
         else if c \<le> CHR 0xA0 \<or> c = CHR 0xAD then
           [CHR 0x5C, CHR ''u'', CHR ''0'', CHR ''0'', hexdigit (of_char c div 16), hexdigit (of_char c mod 16)]
         else [char_of (192 + of_char c div 64 :: nat), char_of (128 + of_char c mod 64 :: nat)])
        @ [CHR 0x27])"

definition scan_error :: "scanner \<Rightarrow> char \<Rightarrow> string \<Rightarrow> scan_code \<times> scanner" where
  "scan_error s c context =
     (ScanError, s\<lparr>step := StateError,
        err := Some (SyntaxError (''invalid character '' @ quoteChar c @ '' '' @ context) (bytes s))\<rparr>)"

definition maxNestingDepth :: nat where
  "maxNestingDepth = 10000"

definition pushParseState :: "scanner \<Rightarrow> char \<Rightarrow> parse_state \<Rightarrow> scan_code \<Rightarrow> scan_code \<times> scanner" where
  "pushParseState s c newParseState successState =
     (let s' = s\<lparr>parseState := parseState s @ [newParseState]\<rparr>
      in if length (parseState s') \<le> maxNestingDepth then (successState, s')
         else scan_error s' c ''exceeded max depth'')"

definition popParseState :: "scanner \<Rightarrow> scanner" where
  "popParseState s =
     (let ps = butlast (parseState s)
      in if length ps = 0 then s\<lparr>parseState := ps, step := StateEndTop, endTop := True\<rparr>
         else s\<lparr>parseState := ps, step := StateEndValue\<rparr>)"

definition stateEndTop :: "scanner \<Rightarrow> char \<Rightarrow> scan_code \<times> scanner" where
  "stateEndTop s c =
     (if \<not> isSpace c then (ScanEnd, snd (scan_error s c ''after top-level value''))
      else (ScanEnd, s))"

definition set_last :: "'a \<Rightarrow> 'a list \<Rightarrow> 'a list" where
  "set_last x xs = butlast xs @ [x]"

definition stateEndValue :: "scanner \<Rightarrow> char \<Rightarrow> scan_code \<times> scanner" where
  "stateEndValue s c =
     (if length (parseState s) = 0 then stateEndTop (s\<lparr>step := StateEndTop, endTop := True\<rparr>) c
      else if isSpace c then (ScanSkipSpace, s\<lparr>step := StateEndValue\<rparr>)
      else (case last (parseState s) of
          ParseObjectKey \<Rightarrow>
            (if c = CHR '':'' then
               (ScanObjectKey, s\<lparr>parseState := set_last ParseObjectValue (parseState s), step := StateBeginValue\<rparr>)
             else scan_error s c ''after object key'')
        | ParseObjectValue \<Rightarrow>
            (if c = CHR '','' then
               (ScanObjectValue, s\<lparr>parseState := set_last ParseObjectKey (parseState s), step := StateBeginString\<rparr>)
             else if c = CHR ''}'' then (ScanEndObject, popParseState s)
             else scan_error s c ''after object key:value pair'')
        | ParseArrayValue \<Rightarrow>
            (if c = CHR '','' then (ScanArrayValue, s\<lparr>step := StateBeginValue\<rparr>)
             else if c = CHR '']'' then (ScanEndArray, popParseState s)
             else scan_error s c ''after array element'')))"

definition stateBeginValue :: "scanner \<Rightarrow> char \<Rightarrow> scan_code \<times> scanner" where
  "stateBeginValue s c =
     (if isSpace c then (ScanSkipSpace, s)
      else if c = CHR ''{'' then pushParseState (s\<lparr>step := StateBeginStringOrEmpty\<rparr>) c ParseObjectKey ScanBeginObject
      else if c = CHR ''['' then pushParseState (s\<lparr>step := StateBeginValueOrEmpty\<rparr>) c ParseArrayValue ScanBeginArray
      else if c = CHR 0x22 then (ScanBeginLiteral, s\<lparr>step := StateInString\<rparr>)
      else if c = CHR ''-'' then (ScanBeginLiteral, s\<lparr>step := StateNeg\<rparr>)
      else if c = CHR ''0'' then (ScanBeginLiteral, s\<lparr>step := State0\<rparr>)
      else if c = CHR ''t'' then (ScanBeginLiteral, s\<lparr>step := StateT\<rparr>)
      else if c = CHR ''f'' then (ScanBeginLiteral, s\<lparr>step := StateF\<rparr>)
      else if c = CHR ''n'' then (ScanBeginLiteral, s\<lparr>step := StateN\<rparr>)
      else if CHR ''1'' \<le> c \<and> c \<le> CHR ''9'' then (ScanBeginLiteral, s\<lparr>step := State1\<rparr>)
      else scan_error s c ''looking for beginning of value'')"

definition stateBeginValueOrEmpty :: "scanner \<Rightarrow> char \<Rightarrow> scan_code \<times> scanner" where
  "stateBeginValueOrEmpty s c =
     (if isSpace c then (ScanSkipSpace, s)
      else if c = CHR '']'' then stateEndValue s c
      else stateBeginValue s c)"

definition stateBeginString :: "scanner \<Rightarrow> char \<Rightarrow> scan_code \<times> scanner" where
  "stateBeginString s c =
     (if isSpace c then (ScanSkipSpace, s)
      else if c = CHR 0x22 then (ScanBeginLiteral, s\<lparr>step := StateInString\<rparr>)
      else scan_error s c ''looking for beginning of object key string'')"

definition stateBeginStringOrEmpty :: "scanner \<Rightarrow> char \<Rightarrow> scan_code \<times> scanner" where
  "stateBeginStringOrEmpty s c =
     (if isSpace c then (ScanSkipSpace, s)
      else if c = CHR ''}'' then
        stateEndValue (s\<lparr>parseState := set_last ParseObjectValue (parseState s)\<rparr>) c
      else stateBeginString s c)"

definition stateInString :: "scanner \<Rightarrow> char \<Rightarrow> scan_code \<times> scanner" where
  "stateInString s c =
     (if c = CHR 0x22 then (ScanContinue, s\<lparr>step := StateEndValue\<rparr>)
      else if c = CHR 0x5C then (ScanContinue, s\<lparr>step := StateInStringEsc\<rparr>)
      else if c < CHR 0x20 then scan_error s c ''in string literal''
      else (ScanContinue, s))"

definition stateInStringEsc :: "scanner \<Rightarrow> char \<Rightarrow> scan_code \<times> scanner" where
  "stateInStringEsc s c =
     (if c \<in> set [CHR ''b'', CHR ''f'', CHR ''n'', CHR ''r'', CHR ''t'', CHR 0x5C, CHR ''/'', CHR 0x22]
      then (ScanContinue, s\<lparr>step := StateInString\<rparr>)
      else if c = CHR ''u'' then (ScanContinue, s\<lparr>step := StateInStringEscU\<rparr>)
      else scan_error s c ''in string escape code'')"

definition isHex :: "char \<Rightarrow> bool" where
  "isHex c = (CHR ''0'' \<le> c \<and> c \<le> CHR ''9'' \<or> CHR ''a'' \<le> c \<and> c \<le> CHR ''f''
              \<or> CHR ''A'' \<le> c \<and> c \<le> CHR ''F'')"

definition stateInStringEscU_any :: "step_fn \<Rightarrow> scanner \<Rightarrow> char \<Rightarrow> scan_code \<times> scanner" where
  "stateInStringEscU_any next s c =
     (if isHex c then (ScanContinue, s\<lparr>step := next\<rparr>)
      else scan_error s c (''in '' @ [CHR 0x5C] @ ''u hexadecimal character escape''))"

definition isDigit :: "char \<Rightarrow> bool" where
  "isDigit c = (CHR ''0'' \<le> c \<and> c \<le> CHR ''9'')"

definition stateNeg :: "scanner \<Rightarrow> char \<Rightarrow> scan_code \<times> scanner" where
  "stateNeg s c =
     (if c = CHR ''0'' then (ScanContinue, s\<lparr>step := State0\<rparr>)
      else if CHR ''1'' \<le> c \<and> c \<le> CHR ''9'' then (ScanContinue, s\<lparr>step := State1\<rparr>)
      else scan_error s c ''in numeric literal'')"

definition state0 :: "scanner \<Rightarrow> char \<Rightarrow> scan_code \<times> scanner" where
  "state0 s c =
     (if c = CHR ''.'' then (ScanContinue, s\<lparr>step := StateDot\<rparr>)
      else if c = CHR ''e'' \<or> c = CHR ''E'' then (ScanContinue, s\<lparr>step := StateE\<rparr>)
      else stateEndValue s c)"

definition state1 :: "scanner \<Rightarrow> char \<Rightarrow> scan_code \<times> scanner" where
  "state1 s c =
     (if isDigit c then (ScanContinue, s\<lparr>step := State1\<rparr>)
      else state0 s c)"

definition stateDot :: "scanner \<Rightarrow> char \<Rightarrow> scan_code \<times> scanner" where
  "stateDot s c =
     (if isDigit c then (ScanContinue, s\<lparr>step := StateDot0\<rparr>)
      else scan_error s c ''after decimal point in numeric literal'')"

definition stateDot0 :: "scanner \<Rightarrow> char \<Rightarrow> scan_code \<times> scanner" where
  "stateDot0 s c =
     (if isDigit c then (ScanContinue, s)
      else if c = CHR ''e'' \<or> c = CHR ''E'' then (ScanContinue, s\<lparr>step := StateE\<rparr>)
      else stateEndValue s c)"

definition stateESign :: "scanner \<Rightarrow> char \<Rightarrow> scan_code \<times> scanner" where
  "stateESign s c =
     (if isDigit c then (ScanContinue, s\<lparr>step := StateE0\<rparr>)
      else scan_error s c ''in exponent of numeric literal'')"

definition stateE :: "scanner \<Rightarrow> char \<Rightarrow> scan_code \<times> scanner" where
  "stateE s c =
     (if c = CHR ''+'' \<or> c = CHR ''-'' then (ScanContinue, s\<lparr>step := StateESign\<rparr>)
      else stateESign s c)"

definition stateE0 :: "scanner \<Rightarrow> char \<Rightarrow> scan_code \<times> scanner" where
  "stateE0 s c =
     (if isDigit c then (ScanContinue, s)
      else stateEndValue s c)"

definition stateLit :: "char \<Rightarrow> step_fn \<Rightarrow> string \<Rightarrow> scanner \<Rightarrow> char \<Rightarrow> scan_code \<times> scanner" where
  "stateLit want next context s c =
     (if c = want then (ScanContinue, s\<lparr>step := next\<rparr>)
      else scan_error s c context)"

fun scan_step :: "scanner \<Rightarrow> char \<Rightarrow> scan_code \<times> scanner" where
  "scan_step s c =
     (case step s of
        StateBeginValueOrEmpty \<Rightarrow> stateBeginValueOrEmpty s c
      | StateBeginValue \<Rightarrow> stateBeginValue s c
      | StateBeginStringOrEmpty \<Rightarrow> stateBeginStringOrEmpty s c
      | StateBeginString \<Rightarrow> stateBeginString s c
      | StateEndValue \<Rightarrow> stateEndValue s c
      | StateEndTop \<Rightarrow> stateEndTop s c
      | StateInString \<Rightarrow> stateInString s c
      | StateInStringEsc \<Rightarrow> stateInStringEsc s c
      | StateInStringEscU \<Rightarrow> stateInStringEscU_any StateInStringEscU1 s c
      | StateInStringEscU1 \<Rightarrow> stateInStringEscU_any StateInStringEscU12 s c
      | StateInStringEscU12 \<Rightarrow> stateInStringEscU_any StateInStringEscU123 s c
      | StateInStringEscU123 \<Rightarrow> stateInStringEscU_any StateInString s c
      | StateNeg \<Rightarrow> stateNeg s c
      | State1 \<Rightarrow> state1 s c
      | State0 \<Rightarrow> state0 s c
      | StateDot \<Rightarrow> stateDot s c
      | StateDot0 \<Rightarrow> stateDot0 s c
      | StateE \<Rightarrow> stateE s c
      | StateESign \<Rightarrow> stateESign s c
      | StateE0 \<Rightarrow> stateE0 s c
      | StateT \<Rightarrow> stateLit CHR ''r'' StateTr ''in literal true (expecting 'r')'' s c
      | StateTr \<Rightarrow> stateLit CHR ''u'' StateTru ''in literal true (expecting 'u')'' s c
      | StateTru \<Rightarrow> stateLit CHR ''e'' StateEndValue ''in literal true (expecting 'e')'' s c
      | StateF \<Rightarrow> stateLit CHR ''a'' StateFa ''in literal false (expecting 'a')'' s c
      | StateFa \<Rightarrow> stateLit CHR ''l'' StateFal ''in literal false (expecting 'l')'' s c
      | StateFal \<Rightarrow> stateLit CHR ''s'' StateFals ''in literal false (expecting 's')'' s c
      | StateFals \<Rightarrow> stateLit CHR ''e'' StateEndValue ''in literal false (expecting 'e')'' s c
      | StateN \<Rightarrow> stateLit CHR ''u'' StateNu ''in literal null (expecting 'u')'' s c
      | StateNu \<Rightarrow> stateLit CHR ''l'' StateNul ''in literal null (expecting 'l')'' s c
      | StateNul \<Rightarrow> stateLit CHR ''l'' StateEndValue ''in literal null (expecting 'l')'' s c
      | StateError \<Rightarrow> (ScanError, s))"

definition scan_eof :: "scanner \<Rightarrow> scan_code \<times> scanner" where
  "scan_eof s =
     (if err s \<noteq> None then (ScanError, s)
      else if endTop s then (ScanEnd, s)
      else (let s' = snd (scan_step s CHR '' '')
            in if endTop s' then (ScanEnd, s')
               else if err s' = None then
                 (ScanError, s'\<lparr>err := Some (SyntaxError ''unexpected end of JSON input'' (bytes s'))\<rparr>)
               else (ScanError, s')))"

fun checkValid_loop :: "scanner \<Rightarrow> string \<Rightarrow> go_error option" where
  "checkValid_loop s [] = err (snd (scan_eof s))"
| "checkValid_loop s (c # cs) =
     (let s1 = s\<lparr>bytes := bytes s + 1\<rparr>;
          (v, s2) = scan_step s1 c
      in if v = ScanError then err s2 else checkValid_loop s2 cs)"

definition checkValid :: "string \<Rightarrow> go_error option" where
  "checkValid data = checkValid_loop newScanner data"



definition appendNewline :: "string \<Rightarrow> string \<Rightarrow> string \<Rightarrow> nat \<Rightarrow> string" where
  "appendNewline dst prefix indent depth = dst @ [CHR 0x0A] @ prefix @ concat (replicate depth indent)"

fun appendIndent_loop :: "string \<Rightarrow> string \<Rightarrow> scanner \<Rightarrow> bool \<Rightarrow> nat \<Rightarrow> string \<Rightarrow> string
    \<Rightarrow> go_error + string" where
  "appendIndent_loop prefix indent scan needIndent depth dst [] =
     (case scan_eof scan of
        (v, scan') \<Rightarrow> if v = ScanError then Inl (the (err scan')) else Inr dst)"
| "appendIndent_loop prefix indent scan needIndent depth dst (c # src) =
     (let scan1 = scan\<lparr>bytes := bytes scan + 1\<rparr>;
          (v, scan2) = scan_step scan1 c
      in if v = ScanSkipSpace then appendIndent_loop prefix indent scan2 needIndent depth dst src
         else if v = ScanError then appendIndent_loop prefix indent scan2 needIndent depth dst []
         else
           (let indentNow = (needIndent \<and> v \<noteq> ScanEndObject \<and> v \<noteq> ScanEndArray);
                needIndent1 = (if indentNow then False else needIndent);
                depth1 = (if indentNow then depth + 1 else depth);
                dst1 = (if indentNow then appendNewline dst prefix indent depth1 else dst)
            in if v = ScanContinue then
                 appendIndent_loop prefix indent scan2 needIndent1 depth1 (dst1 @ [c]) src
               else if c = CHR ''{'' \<or> c = CHR ''['' then
                 appendIndent_loop prefix indent scan2 True depth1 (dst1 @ [c]) src
               else if c = CHR '','' then
                 appendIndent_loop prefix indent scan2 needIndent1 depth1
                   (appendNewline (dst1 @ [c]) prefix indent depth1) src
               else if c = CHR '':'' then
                 appendIndent_loop prefix indent scan2 needIndent1 depth1 (dst1 @ [c, CHR '' '']) src
               else if c = CHR ''}'' \<or> c = CHR '']'' then
                 (if needIndent1 then
                    appendIndent_loop prefix indent scan2 False depth1 (dst1 @ [c]) src
                  else
                    appendIndent_loop prefix indent scan2 needIndent1 (depth1 - 1)
                      (appendNewline dst1 prefix indent (depth1 - 1) @ [c]) src)
               else appendIndent_loop prefix indent scan2 needIndent1 depth1 (dst1 @ [c]) src))"

definition go_Indent :: "string \<Rightarrow> string \<Rightarrow> string \<Rightarrow> go_error + string" where
  "go_Indent src prefix indent = appendIndent_loop prefix indent newScanner False 0 [] src"


definition digits_value :: "string \<Rightarrow> nat" where
  "digits_value ds = foldl (\<lambda>n c. 10 * n + (of_char c - 48)) 0 ds"

text \<open>bit length: the number of binary digits of n\<close>
fun bitlen :: "nat \<Rightarrow> nat \<Rightarrow> nat" where
  "bitlen 0 n = 0"
| "bitlen (Suc fuel) n = (if n = 0 then 0 else Suc (bitlen fuel (n div 2)))"

text \<open>num / den \<ge> 2^e\<close>
definition ge_pow2 :: "nat \<Rightarrow> nat \<Rightarrow> int \<Rightarrow> bool" where
  "ge_pow2 num den e = (if 0 \<le> e then den * 2 ^ nat e \<le> num else den \<le> num * 2 ^ nat (- e))"

definition floor_log2 :: "nat \<Rightarrow> nat \<Rightarrow> int" where
  "floor_log2 num den =
     (let e0 = int (bitlen num num) - int (bitlen den den)
      in if ge_pow2 num den e0 then e0 else e0 - 1)"

definition round_half_even :: "nat \<Rightarrow> nat \<Rightarrow> nat" where
  "round_half_even a b =
     (let d = a div b; r = a mod b
      in if 2 * r < b then d else if b < 2 * r then d + 1 else if even d then d else d + 1)"

text \<open>The float64 nearest to num / den (ties to even): mantissa and binary exponent of the
  last mantissa bit, or None when it overflows.\<close>
definition round_float64 :: "nat \<Rightarrow> nat \<Rightarrow> (nat \<times> int) option" where
  "round_float64 num den =
     (if num = 0 then Some (0, - 1074)
      else
        (let e = max (floor_log2 num den) (- 1022);
             sh = e - 52;
             m = (if sh \<le> 0 then round_half_even (num * 2 ^ nat (- sh)) den
                  else round_half_even num (den * 2 ^ nat sh));
             (m', sh') = (if m = 2 ^ 53 then (2 ^ 52, sh + 1) else (m, sh))
         in if sh' + 52 > 1023 then None else Some (m', sh')))"

definition float64_bits :: "bool \<Rightarrow> nat \<Rightarrow> int \<Rightarrow> float64" where
  "float64_bits neg m sh =
     word_of_nat ((if neg then 2 ^ 63 else 0)
       + (if m < 2 ^ 52 then m else nat (sh + 1075) * 2 ^ 52 + (m - 2 ^ 52)))"

text \<open>A JSON number literal: sign, integer digits, fraction digits, exponent.\<close>
definition split_number :: "string \<Rightarrow> bool \<times> string \<times> string \<times> int" where
  "split_number s =
     (let neg = (s \<noteq> [] \<and> hd s = CHR ''-'');
          s1 = (if neg then tl s else s);
          ip = takeWhile isDigit s1;
          s2 = dropWhile isDigit s1;
          fp = (if s2 \<noteq> [] \<and> hd s2 = CHR ''.'' then takeWhile isDigit (tl s2) else []);
          s3 = (if s2 \<noteq> [] \<and> hd s2 = CHR ''.'' then dropWhile isDigit (tl s2) else s2);
          s4 = (if s3 \<noteq> [] then tl s3 else []);
          eneg = (s4 \<noteq> [] \<and> hd s4 = CHR ''-'');
          s5 = (if s4 \<noteq> [] \<and> (hd s4 = CHR ''-'' \<or> hd s4 = CHR ''+'') then tl s4 else s4);
          ex = int (digits_value s5)
      in (neg, ip, fp, if eneg then - ex else ex))"

definition ParseFloat :: "string \<Rightarrow> float64 option" where
  "ParseFloat s =
     (let (neg, ip, fp, ex) = split_number s;
          mant = digits_value (ip @ fp);
          e10 = ex - int (length fp);
          num = (if 0 \<le> e10 then mant * 10 ^ nat e10 else mant);
          den = (if 0 \<le> e10 then 1 else 10 ^ nat (- e10))
      in case round_float64 num den of
           None \<Rightarrow> None
         | Some (m, sh) \<Rightarrow> Some (float64_bits neg m sh))"



definition itoa :: "nat \<Rightarrow> string" where
  "itoa n = digits_of (Suc n) n"

text \<open>The fields of a float64: sign, mantissa and exponent of its last bit; None for
  an infinity or a NaN.\<close>
definition float64_fields :: "float64 \<Rightarrow> (bool \<times> nat \<times> int) option" where
  "float64_fields w =
     (let b = unat w; neg = (2 ^ 63 \<le> b); ex = (b div 2 ^ 52) mod 2048; frac = b mod 2 ^ 52
      in if ex = 2047 then None
         else if ex = 0 then Some (neg, frac, - 1074)
         else Some (neg, frac + 2 ^ 52, int ex - 1075))"

text \<open>num / den \<ge> 10^e\<close>
definition ge_pow10 :: "nat \<Rightarrow> nat \<Rightarrow> int \<Rightarrow> bool" where
  "ge_pow10 num den e = (if 0 \<le> e then den * 10 ^ nat e \<le> num else den \<le> num * 10 ^ nat (- e))"

definition floor_log10 :: "nat \<Rightarrow> nat \<Rightarrow> int" where
  "floor_log10 num den =
     (let e0 = int (length (itoa num)) - int (length (itoa den))
      in if ge_pow10 num den e0 then e0 else e0 - 1)"

text \<open>The decimals with n digits next to num / den, below and above: the integers lo and
  hi with lo * 10^p \<le> num / den \<le> hi * 10^p, and which of the two is nearer (ties to
  the even one).\<close>
definition candidates :: "nat \<Rightarrow> nat \<Rightarrow> int \<Rightarrow> nat \<times> nat \<times> bool" where
  "candidates num den p =
     (let a = (if p \<le> 0 then num * 10 ^ nat (- p) else num);
          b = (if p \<le> 0 then den else den * 10 ^ nat p);
          lo = a div b; r = a mod b;
          hi = (if r = 0 then lo else lo + 1);
          up = (b < 2 * r \<or> (2 * r = b \<and> odd lo))
      in (lo, hi, up))"

definition rounds_to :: "nat \<Rightarrow> int \<Rightarrow> nat \<times> int \<Rightarrow> bool" where
  "rounds_to d p f =
     (d \<noteq> 0 \<and> (if 0 \<le> p then round_float64 (d * 10 ^ nat p) 1
                 else round_float64 d (10 ^ nat (- p))) = Some f)"

text \<open>The shortest decimal that rounds to the float (m, sh), nearest to it: its digits
  and the exponent of its last digit. Seventeen digits always suffice.\<close>
fun shortest :: "nat \<Rightarrow> nat \<Rightarrow> nat \<times> int \<Rightarrow> nat \<Rightarrow> nat \<Rightarrow> int \<Rightarrow> nat \<times> int" where
  "shortest 0 n f num den k = (fst (candidates num den (k - int n + 1)), k - int n + 1)"
| "shortest (Suc fuel) n f num den k =
     (let p = k - int n + 1;
          (lo, hi, up) = candidates num den p;
          oklo = rounds_to lo p f; okhi = rounds_to hi p f
      in if oklo \<and> okhi then (if up then hi else lo, p)
         else if oklo then (lo, p)
         else if okhi then (hi, p)
         else shortest fuel (n + 1) f num den k)"

fun strip_zeros :: "nat \<Rightarrow> string \<Rightarrow> string" where
  "strip_zeros 0 ds = ds"
| "strip_zeros (Suc fuel) ds = (if ds \<noteq> [] \<and> last ds = CHR ''0'' then strip_zeros fuel (butlast ds) else ds)"

definition fmt_f :: "string \<Rightarrow> int \<Rightarrow> string" where
  "fmt_f ds dp =
     (let nd = int (length ds);
          ipart = (if 0 < dp then take (nat dp) ds @ replicate (nat (dp - nd)) CHR ''0'' else ''0'');
          fpart = (if dp < nd then ''.'' @ replicate (nat (- dp)) CHR ''0'' @ drop (nat dp) ds else [])
      in ipart @ fpart)"

definition fmt_e :: "string \<Rightarrow> int \<Rightarrow> string" where
  "fmt_e ds dp =
     (let ex = dp - 1;
          es = itoa (nat \<bar>ex\<bar>);
          es2 = (if length es < 2 then CHR ''0'' # es else es)
      in [hd ds] @ (if 1 < length ds then ''.'' @ tl ds else []) @ ''e''
         @ (if ex < 0 then ''-'' else ''+'') @ es2)"

text \<open>The JSON encoder's clean-up of the exponent: e-09 becomes e-9.\<close>
definition clean_exp :: "string \<Rightarrow> string" where
  "clean_exp b =
     (let n = length b
      in if 4 \<le> n \<and> b ! (n - 4) = CHR ''e'' \<and> (b ! (n - 3) = CHR ''-'' \<or> b ! (n - 3) = CHR ''+'')
            \<and> b ! (n - 2) = CHR ''0''
         then take (n - 2) b @ [b ! (n - 1)] else b)"

definition FormatFloat :: "float64 \<Rightarrow> string option" where
  "FormatFloat w =
     (case float64_fields w of
        None \<Rightarrow> None
      | Some (neg, m, sh) \<Rightarrow>
          Some ((if neg then ''-'' else []) @
            (if m = 0 then ''0''
             else
               (let num = (if 0 \<le> sh then m * 2 ^ nat sh else m);
                    den = (if 0 \<le> sh then 1 else 2 ^ nat (- sh));
                    k = floor_log10 num den;
                    (d, p) = shortest 17 1 (m, sh) num den k;
                    ds0 = itoa d;
                    ds = strip_zeros (length ds0) ds0;
                    dp = int (length ds0) + p
                in if \<not> ge_pow10 num den (- 6) \<or> ge_pow10 num den 21
                   then clean_exp (fmt_e ds dp) else fmt_f ds dp))))"


subsection \<open>UTF-8\<close>

text \<open>
  \<open>utf8.DecodeRune\<close>: the first code point of a byte sequence and its width in bytes;
  \<open>(0xFFFD, 1)\<close> for an invalid encoding, \<open>(0xFFFD, 0)\<close> for the empty sequence.
\<close>

definition isCont :: "char \<Rightarrow> nat \<Rightarrow> nat \<Rightarrow> bool" where
  "isCont c lo hi = (lo \<le> of_char c \<and> (of_char c :: nat) \<le> hi)"

definition DecodeRune :: "string \<Rightarrow> nat \<times> nat" where
  "DecodeRune s =
     (case s of
        [] \<Rightarrow> (0xFFFD, 0)
      | c0 # r \<Rightarrow>
          (let b0 = (of_char c0 :: nat)
           in if b0 < 0x80 then (b0, 1)
              else if 0xC2 \<le> b0 \<and> b0 \<le> 0xDF then
                (case r of
                   c1 # _ \<Rightarrow>
                     if isCont c1 0x80 0xBF then ((b0 - 0xC0) * 64 + (of_char c1 - 0x80), 2)
                     else (0xFFFD, 1)
                 | _ \<Rightarrow> (0xFFFD, 1))
              else if 0xE0 \<le> b0 \<and> b0 \<le> 0xEF then
                (case r of
                   c1 # c2 # _ \<Rightarrow>
                     if isCont c1 (if b0 = 0xE0 then 0xA0 else 0x80) (if b0 = 0xED then 0x9F else 0xBF)
                        \<and> isCont c2 0x80 0xBF
                     then ((b0 - 0xE0) * 4096 + (of_char c1 - 0x80) * 64 + (of_char c2 - 0x80), 3)
                     else (0xFFFD, 1)
                 | _ \<Rightarrow> (0xFFFD, 1))
              else if 0xF0 \<le> b0 \<and> b0 \<le> 0xF4 then
                (case r of
                   c1 # c2 # c3 # _ \<Rightarrow>
                     if isCont c1 (if b0 = 0xF0 then 0x90 else 0x80) (if b0 = 0xF4 then 0x8F else 0xBF)
                        \<and> isCont c2 0x80 0xBF \<and> isCont c3 0x80 0xBF
                     then ((b0 - 0xF0) * 262144 + (of_char c1 - 0x80) * 4096
                           + (of_char c2 - 0x80) * 64 + (of_char c3 - 0x80), 4)
                     else (0xFFFD, 1)
                 | _ \<Rightarrow> (0xFFFD, 1))
              else (0xFFFD, 1)))"

text \<open>\<open>utf8.AppendRune\<close>: a surrogate or a value above 0x10FFFF is written as U+FFFD.\<close>

definition EncodeRune :: "nat \<Rightarrow> string" where
  "EncodeRune r =
     (if r < 0x80 then [char_of r]
      else if r < 0x800 then [char_of (0xC0 + r div 64), char_of (0x80 + r mod 64)]
      else if (0xD800 \<le> r \<and> r \<le> 0xDFFF) \<or> 0x10FFFF < r then [CHR 0xEF, CHR 0xBF, CHR 0xBD]
      else if r < 0x10000 then
        [char_of (0xE0 + r div 4096), char_of (0x80 + (r div 64) mod 64), char_of (0x80 + r mod 64)]
      else [char_of (0xF0 + r div 262144), char_of (0x80 + (r div 4096) mod 64),
            char_of (0x80 + (r div 64) mod 64), char_of (0x80 + r mod 64)])"

subsection \<open>The decoder\<close>

definition hexval :: "char \<Rightarrow> nat" where
  "hexval c = (if isDigit c then of_char c - 48
               else if CHR ''a'' \<le> c \<and> c \<le> CHR ''f'' then of_char c - 87
               else of_char c - 55)"

text \<open>
  \<open>getu4\<close>: the value of a \<open>\uXXXX\<close> escape at the head of the bytes, or none.
\<close>

definition getu4 :: "string \<Rightarrow> nat option" where
  "getu4 s =
     (case s of
        b # u # h1 # h2 # h3 # h4 # _ \<Rightarrow>
          if b = CHR 0x5C \<and> u = CHR ''u'' \<and> isHex h1 \<and> isHex h2 \<and> isHex h3 \<and> isHex h4
          then Some (hexval h1 * 4096 + hexval h2 * 256 + hexval h3 * 16 + hexval h4)
          else None
      | _ \<Rightarrow> None)"

definition isSurrogate :: "nat \<Rightarrow> bool" where
  "isSurrogate r = (0xD800 \<le> r \<and> r < 0xE000)"

text \<open>\<open>utf16.DecodeRune\<close> of a surrogate pair, U+FFFD when it is not one.\<close>

definition utf16_DecodeRune :: "nat \<Rightarrow> nat option \<Rightarrow> nat" where
  "utf16_DecodeRune r1 r2 =
     (case r2 of
        None \<Rightarrow> 0xFFFD
      | Some r2' \<Rightarrow>
          if 0xD800 \<le> r1 \<and> r1 < 0xDC00 \<and> 0xDC00 \<le> r2' \<and> r2' < 0xE000
          then (r1 - 0xD800) * 1024 + (r2' - 0xDC00) + 0x10000
          else 0xFFFD)"

definition unescape :: "char \<Rightarrow> char" where
  "unescape e =
     (if e = CHR ''b'' then CHR 0x08
      else if e = CHR ''f'' then CHR 0x0C
      else if e = CHR ''n'' then CHR 0x0A
      else if e = CHR ''r'' then CHR 0x0D
      else if e = CHR ''t'' then CHR 0x09
      else e)"

text \<open>
  \<open>unquote\<close> on the bytes between the quotes of a string literal the scanner accepted.
  The first argument bounds the number of steps; the length of the literal is enough.
\<close>

fun unquote :: "nat \<Rightarrow> string \<Rightarrow> string" where
  "unquote 0 s = []"
| "unquote (Suc fuel) s =
     (case s of
        [] \<Rightarrow> []
      | c # cs \<Rightarrow>
      if c = CHR 0x5C then
        (case cs of
           [] \<Rightarrow> []
         | e # r \<Rightarrow>
             if e = CHR ''u'' then
               (case getu4 (c # cs) of
                  None \<Rightarrow> []
                | Some rr \<Rightarrow>
                    (let r' = drop 4 r
                     in if isSurrogate rr then
                          (let dec = utf16_DecodeRune rr (getu4 r')
                           in if dec \<noteq> 0xFFFD then EncodeRune dec @ unquote fuel (drop 6 r')
                              else EncodeRune 0xFFFD @ unquote fuel r')
                        else EncodeRune rr @ unquote fuel r'))
             else unescape e # unquote fuel r)
      else if c < CHR 0x80 then c # unquote fuel cs
      else (case DecodeRune (c # cs) of
              (rr, width) \<Rightarrow> EncodeRune rr @ unquote fuel (drop width (c # cs))))"

text \<open>
  The bytes of a string literal after its opening quote: the bytes up to the closing
  quote, and the rest.
\<close>

fun lit_string :: "string \<Rightarrow> string \<Rightarrow> (string \<times> string) option" where
  "lit_string acc [] = None"
| "lit_string acc [c] = (if c = CHR 0x22 then Some (rev acc, []) else None)"
| "lit_string acc (c # d # cs) =
     (if c = CHR 0x22 then Some (rev acc, d # cs)
      else if c = CHR 0x5C then lit_string (d # c # acc) cs
      else lit_string (c # acc) (d # cs))"

definition isNumChar :: "char \<Rightarrow> bool" where
  "isNumChar c = (isDigit c \<or> c = CHR ''-'' \<or> c = CHR ''+'' \<or> c = CHR ''.'' \<or> c = CHR ''e'' \<or> c = CHR ''E'')"

text \<open>A map of Go as a list in ascending key order: storing a value under a key.\<close>

fun map_store :: "string \<Rightarrow> jvalue \<Rightarrow> gomap \<Rightarrow> gomap" where
  "map_store k v [] = [(k, v)]"
| "map_store k v ((k', v') # m) =
     (if k = k' then (k, v) # m
      else if k < k' then (k, v) # (k', v') # m
      else (k', v') # map_store k v m)"

definition saveError :: "go_error option \<Rightarrow> go_error \<Rightarrow> go_error option" where
  "saveError saved e = (case saved of None \<Rightarrow> Some e | Some e' \<Rightarrow> Some e')"

text \<open>
  The decoder on a document the scanner accepted, storing into an \<open>interface{}\<close>: the
  value, the bytes after it, and the first saved error (a number out of the range of
  \<open>float64\<close> is stored as nil and saved as an error). The first argument bounds the
  number of steps, the second is the length of the document (for the offsets).
\<close>

fun decode_value :: "nat \<Rightarrow> nat \<Rightarrow> go_error option \<Rightarrow> string
      \<Rightarrow> (jvalue \<times> string \<times> go_error option) option"
  and decode_array :: "nat \<Rightarrow> nat \<Rightarrow> go_error option \<Rightarrow> jvalue list \<Rightarrow> string
      \<Rightarrow> (jvalue \<times> string \<times> go_error option) option"
  and decode_object :: "nat \<Rightarrow> nat \<Rightarrow> go_error option \<Rightarrow> gomap \<Rightarrow> string
      \<Rightarrow> (jvalue \<times> string \<times> go_error option) option" where
  "decode_value 0 n saved s = None"
| "decode_value (Suc fuel) n saved s =
     (case dropWhile isSpace s of
        [] \<Rightarrow> None
      | c # r \<Rightarrow>
          if c = CHR ''{'' then decode_object fuel n saved [] (dropWhile isSpace r)
          else if c = CHR ''['' then decode_array fuel n saved [] (dropWhile isSpace r)
          else if c = CHR 0x22 then
            (case lit_string [] r of
               None \<Rightarrow> None
             | Some (raw, rest) \<Rightarrow> Some (JString (unquote (length raw) raw), rest, saved))
          else if c = CHR ''t'' then Some (JBool True, drop 3 r, saved)
          else if c = CHR ''f'' then Some (JBool False, drop 4 r, saved)
          else if c = CHR ''n'' then Some (JNil, drop 3 r, saved)
          else
            (let lit = takeWhile isNumChar (c # r); rest = dropWhile isNumChar (c # r)
             in case ParseFloat lit of
                  Some w \<Rightarrow> Some (JFloat w, rest, saved)
                | None \<Rightarrow>
                    Some (JNil, rest,
                      saveError saved
                        (UnmarshalTypeError
                          (''json: cannot unmarshal number '' @ lit @ '' into Go value of type float64'')
                          (int n - int (length rest) + 1)))))"
| "decode_array 0 n saved acc s = None"
| "decode_array (Suc fuel) n saved acc s =
     (case s of
        [] \<Rightarrow> None
      | c # r \<Rightarrow>
          if c = CHR '']'' then Some (JArray (rev acc), r, saved)
          else
            (case decode_value fuel n saved s of
               None \<Rightarrow> None
             | Some (v, rest, saved') \<Rightarrow>
                 (case dropWhile isSpace rest of
                    [] \<Rightarrow> None
                  | d # r' \<Rightarrow>
                      if d = CHR '','' then decode_array fuel n saved' (v # acc) (dropWhile isSpace r')
                      else if d = CHR '']'' then Some (JArray (rev (v # acc)), r', saved')
                      else None)))"
| "decode_object 0 n saved acc s = None"
| "decode_object (Suc fuel) n saved acc s =
     (case s of
        [] \<Rightarrow> None
      | c # r \<Rightarrow>
          if c = CHR ''}'' then Some (JObject acc, r, saved)
          else if c = CHR 0x22 then
            (case lit_string [] r of
               None \<Rightarrow> None
             | Some (raw, rest) \<Rightarrow>
                 (case dropWhile isSpace rest of
                    [] \<Rightarrow> None
                  | colon # r1 \<Rightarrow>
                      (case decode_value fuel n saved r1 of
                         None \<Rightarrow> None
                       | Some (v, rest', saved') \<Rightarrow>
                           (let acc' = map_store (unquote (length raw) raw) v acc
                            in case dropWhile isSpace rest' of
                                 [] \<Rightarrow> None
                               | d # r' \<Rightarrow>
                                   if d = CHR '','' then
                                     decode_object fuel n saved' acc' (dropWhile isSpace r')
                                   else if d = CHR ''}'' then Some (JObject acc', r', saved')
                                   else None))))
          else None)"

definition cannot_unmarshal :: "string \<Rightarrow> string" where
  "cannot_unmarshal what =
     ''json: cannot unmarshal '' @ what @ '' into Go value of type map[string]interface {}''"

text \<open>
  \<open>json.Unmarshal(data, &blobMap)\<close> for a \<open>blobMap\<close> of type \<open>map[string]interface{}\<close>
  that is empty before the call. The scanner checks the whole document first. An object
  is stored into the map; \<open>null\<close> sets the map to nil, with no error; an array, a
  string, a number or a boolean is an \<open>UnmarshalTypeError\<close>, whose offset is the index
  after the opening bracket or after the literal.
\<close>

definition go_Unmarshal :: "string \<Rightarrow> go_error + gomap option" where
  "go_Unmarshal data =
     (case checkValid data of
        Some e \<Rightarrow> Inl e
      | None \<Rightarrow>
          (case dropWhile isSpace data of
             [] \<Rightarrow> Inl (OtherError ''JSON decoder out of sync - data changing underfoot?'')
           | c # r \<Rightarrow>
               (let after = int (length data) - int (length r)
                in if c = CHR ''{'' then
                     (case decode_value (Suc (length data)) (length data) None data of
                        Some (JObject m, rest, None) \<Rightarrow> Inr (Some m)
                      | Some (v, rest, Some e) \<Rightarrow> Inl e
                      | _ \<Rightarrow> Inl (OtherError ''JSON decoder out of sync - data changing underfoot?''))
                   else if c = CHR ''['' then Inl (UnmarshalTypeError (cannot_unmarshal ''array'') after)
                   else if c = CHR ''n'' then Inr None
                   else if c = CHR 0x22 then
                     Inl (UnmarshalTypeError (cannot_unmarshal ''string'')
                           (case lit_string [] r of
                              None \<Rightarrow> after
                            | Some (raw, rest) \<Rightarrow> int (length data) - int (length rest)))
                   else if c = CHR ''t'' then Inl (UnmarshalTypeError (cannot_unmarshal ''bool'') (after + 3))
                   else if c = CHR ''f'' then Inl (UnmarshalTypeError (cannot_unmarshal ''bool'') (after + 4))
                   else Inl (UnmarshalTypeError (cannot_unmarshal ''number'')
                              (int (length data) - int (length (dropWhile isNumChar (c # r))))))))"

subsection \<open>The encoder\<close>

text \<open>
  The body of a string literal as the encoder writes it. The first argument bounds the
  number of steps; the length of the string is enough.
\<close>

definition escape_byte :: "bool \<Rightarrow> char \<Rightarrow> string" where
  "escape_byte escapeHTML c =
     (if c = CHR 0x5C \<or> c = CHR 0x22 then [CHR 0x5C, c]
      else if c = CHR 0x08 then [CHR 0x5C, CHR ''b'']
      else if c = CHR 0x0C then [CHR 0x5C, CHR ''f'']
      else if c = CHR 0x0A then [CHR 0x5C, CHR ''n'']
      else if c = CHR 0x0D then [CHR 0x5C, CHR ''r'']
      else if c = CHR 0x09 then [CHR 0x5C, CHR ''t'']
      else if c < CHR 0x20 \<or> (escapeHTML \<and> (c = CHR ''<'' \<or> c = CHR ''>'' \<or> c = CHR ''&'')) then
        [CHR 0x5C, CHR ''u'', CHR ''0'', CHR ''0'', hexdigit (of_char c div 16), hexdigit (of_char c mod 16)]
      else [c])"

fun appendString :: "nat \<Rightarrow> bool \<Rightarrow> string \<Rightarrow> string" where
  "appendString 0 escapeHTML s = []"
| "appendString (Suc fuel) escapeHTML s =
     (case s of
        [] \<Rightarrow> []
      | c # cs \<Rightarrow>
      if c < CHR 0x80 then escape_byte escapeHTML c @ appendString fuel escapeHTML cs
      else (case DecodeRune (c # cs) of
              (rr, width) \<Rightarrow>
                (if rr = 0xFFFD \<and> width = 1 then [CHR 0x5C] @ ''ufffd''
                 else if rr = 0x2028 \<or> rr = 0x2029 then [CHR 0x5C] @ ''u202'' @ [hexdigit (rr mod 16)]
                 else take width (c # cs))
                @ appendString fuel escapeHTML (drop width (c # cs))))"

definition quote :: "bool \<Rightarrow> string \<Rightarrow> string" where
  "quote escapeHTML s = [CHR 0x22] @ appendString (length s) escapeHTML s @ [CHR 0x22]"

fun join :: "string \<Rightarrow> string list \<Rightarrow> string" where
  "join sep [] = []"
| "join sep [x] = x"
| "join sep (x # y # xs) = x @ sep @ join sep (y # xs)"

text \<open>
  The encoder on a value of an \<open>interface{}\<close>: none for a NaN or an infinity (an
  \<open>UnsupportedValueError\<close>). The keys of a map are written in ascending order.
\<close>

fun encode_value :: "bool \<Rightarrow> jvalue \<Rightarrow> string option"
  and encode_elems :: "bool \<Rightarrow> jvalue list \<Rightarrow> string list option"
  and encode_members :: "bool \<Rightarrow> (string \<times> jvalue) list \<Rightarrow> (string \<times> string) list option" where
  "encode_value esc JNil = Some ''null''"
| "encode_value esc (JBool b) = Some (if b then ''true'' else ''false'')"
| "encode_value esc (JFloat w) = FormatFloat w"
| "encode_value esc (JString s) = Some (quote esc s)"
| "encode_value esc (JArray vs) =
     (case encode_elems esc vs of
        None \<Rightarrow> None
      | Some ts \<Rightarrow> Some (''['' @ join '','' ts @ '']''))"
| "encode_value esc (JObject kvs) =
     (case encode_members esc kvs of
        None \<Rightarrow> None
      | Some kts \<Rightarrow>
          Some (''{'' @ join '','' (map (\<lambda>(k, t). quote esc k @ '':'' @ t) (sort_key fst kts)) @ ''}''))"
| "encode_elems esc [] = Some []"
| "encode_elems esc (v # vs) =
     (case encode_value esc v of
        None \<Rightarrow> None
      | Some t \<Rightarrow> (case encode_elems esc vs of None \<Rightarrow> None | Some ts \<Rightarrow> Some (t # ts)))"
| "encode_members esc [] = Some []"
| "encode_members esc ((k, v) # kvs) =
     (case encode_value esc v of
        None \<Rightarrow> None
      | Some t \<Rightarrow> (case encode_members esc kvs of None \<Rightarrow> None | Some kts \<Rightarrow> Some ((k, t) # kts)))"

text \<open>
  \<open>Encode\<close> of an encoder on an empty buffer: the value and a newline. A nil map is
  written as \<open>null\<close>.
\<close>

definition go_Encode :: "bool \<Rightarrow> gomap option \<Rightarrow> go_error + string" where
  "go_Encode escapeHTML m =
     (case m of
        None \<Rightarrow> Inr (''null'' @ [CHR 0x0A])
      | Some kvs \<Rightarrow>
          (case encode_value escapeHTML (JObject kvs) of
             None \<Rightarrow> Inl (OtherError ''json: unsupported value'')
           | Some t \<Rightarrow> Inr (t @ [CHR 0x0A])))"

subsection \<open>Case folding and the library record\<close>

text \<open>
  Unicode case folding on a string of ASCII bytes is the lower case of its letters.
  Bytes above 0x7F are left as they are: on a string with such bytes this is not
  the folding of \<open>cases.Fold\<close>.
\<close>

definition fold_ascii :: "string \<Rightarrow> string" where
  "fold_ascii s = map (\<lambda>c. if CHR ''A'' \<le> c \<and> c \<le> CHR ''Z'' then char_of (of_char c + (32::nat)) else c) s"

text \<open>
  The library as Go implements it, for documents and keys of ASCII bytes, with one
  order of \<open>range\<close>: the order of the list.
\<close>

definition golang :: golib where
  "golang = \<lparr> cases_Fold = fold_ascii, MapRange = (\<lambda>ks. ks),
      json_Unmarshal = go_Unmarshal, json_Encode = go_Encode,
      json_Indent = (\<lambda>data. go_Indent data [] ''    '') \<rparr>"

section \<open>Notions of the statements\<close>

text \<open>
  The bytes the offset loop does not count: a newline and a space. \<open>counted s\<close> is the
  number of the other bytes of \<open>s\<close>.
\<close>

definition inserted :: "char \<Rightarrow> bool" where
  "inserted c = (c = CHR 0x0A \<or> c = CHR '' '')"

definition counted :: "string \<Rightarrow> nat" where
  "counted s = length (filter (\<lambda>c. \<not> inserted c) s)"

text \<open>Documents and records for the examples.\<close>

definition zeroMeta :: Meta where
  "zeroMeta = \<lparr>Schema = [], Package = [], Name = [], Blob = []\<rparr>"

definition doc_string :: string where
  "doc_string = [CHR 0x22, CHR ''a'', CHR '' '', CHR ''b'', CHR 0x22]"

definition doc_missing_value :: string where
  "doc_missing_value = ''{\"schema\":\"olm.bundle\",\"name\":}''"

definition doc_one_space :: string where
  "doc_one_space = ''{\"name\":\"a b\",\"x\":1}''"

definition pretty_one_space :: string where
  "pretty_one_space = ''{'' @ [CHR 0x0A] @ ''    \"name\": \"a b\",'' @ [CHR 0x0A]
     @ ''    \"x\": 1'' @ [CHR 0x0A] @ ''}''"

definition doc_two_spaces :: string where
  "doc_two_spaces = ''{\"name\":\"a b c\",\"x\":1}''"

definition pretty_two_spaces :: string where
  "pretty_two_spaces = ''{'' @ [CHR 0x0A] @ ''    \"name\": \"a b c\",'' @ [CHR 0x0A]
     @ ''    \"x\": 1'' @ [CHR 0x0A] @ ''}''"

definition msg_missing_value :: string where
  "msg_missing_value =
     ''invalid character '' @ [CHR 0x27] @ ''}'' @ [CHR 0x27] @ '' looking for beginning of value''"

text \<open>
  The values that pass the type assertion \<open>.(string)\<close>, the field behind a pointer of
  \<open>metaMap\<close>, the folded forms of the three canonical names, and the keys of an object
  that fold to a given form.
\<close>

fun is_string :: "jvalue \<Rightarrow> bool" where
  "is_string (JString s) = True"
| "is_string v = False"

fun get_field :: "meta_field \<Rightarrow> Meta \<Rightarrow> string" where
  "get_field SchemaField m = Schema m"
| "get_field PackageField m = Package m"
| "get_field NameField m = Name m"

definition canonical :: "golib \<Rightarrow> string \<Rightarrow> bool" where
  "canonical L f \<longleftrightarrow>
     f = cases_Fold L ''schema'' \<or> f = cases_Fold L ''package'' \<or> f = cases_Fold L ''name''"

definition bucket :: "golib \<Rightarrow> gomap \<Rightarrow> string \<Rightarrow> string set" where
  "bucket L entries f = {k \<in> fst ` set entries. cases_Fold L k = f}"

text \<open>The invariant of the first loop, over the keys visited so far.\<close>

definition keysets_inv :: "golib \<Rightarrow> string set \<Rightarrow> keysets \<Rightarrow> bool" where
  "keysets_inv L S acc \<longleftrightarrow>
     distinct (map fst acc) \<and>
     (\<forall>f. case map_of acc f of
            None \<Rightarrow> {k \<in> S. cases_Fold L k = f} = {}
          | Some xs \<Rightarrow> distinct xs \<and> xs \<noteq> [] \<and> set xs = {k \<in> S. cases_Fold L k = f})"

definition doc_dup :: string where
  "doc_dup = ''{\"schema\":\"olm.package\",\"Schema\":\"dup\"}''"

section \<open>Properties\<close>

subsection \<open>The offset loop\<close>


lemma counted_Nil [simp]: "counted [] = 0"
  by (simp add: counted_def)

lemma counted_append [simp]: "counted (xs @ ys) = counted xs + counted ys"
  by (simp add: counted_def)

lemma counted_single [simp]: "counted [c] = (if inserted c then 0 else 1)"
  by (simp add: counted_def)

lemma counted_take_Suc:
  "p < length s \<Longrightarrow> counted (take (Suc p) s) = counted (take p s) + (if inserted (s ! p) then 0 else 1)"
  by (simp add: take_Suc_conv_app_nth)

lemma counted_take_le: "counted (take p s) \<le> counted s"
proof -
  have "counted (take p s @ drop p s) = counted (take p s) + counted (drop p s)"
    by (rule counted_append)
  then show ?thesis by simp
qed

lemma offsetLoop_stop:
  "\<not> origOffset < offset \<Longrightarrow> offsetLoop pString offset origOffset pOffset = Done pOffset"
  by (subst offsetLoop.simps) simp

lemma offsetLoop_panic:
  "origOffset < offset \<Longrightarrow> \<not> pOffset < length pString \<Longrightarrow>
   offsetLoop pString offset origOffset pOffset = Panic ''index out of range''"
  by (subst offsetLoop.simps) simp

lemma offsetLoop_step:
  "origOffset < offset \<Longrightarrow> pOffset < length pString \<Longrightarrow>
   offsetLoop pString offset origOffset pOffset =
   offsetLoop pString offset
     (if pString ! pOffset \<noteq> CHR 0x0A \<and> pString ! pOffset \<noteq> CHR '' ''
      then origOffset + 1 else origOffset) (pOffset + 1)"
  by (subst offsetLoop.simps) simp

lemma offsetLoop_inv:
  "offsetLoop pString offset origOffset pOffset = Done q \<Longrightarrow>
   pOffset \<le> length pString \<Longrightarrow>
   origOffset = int (counted (take pOffset pString)) \<Longrightarrow>
   origOffset \<le> offset \<Longrightarrow>
   q \<le> length pString \<and> pOffset \<le> q \<and> int (counted (take q pString)) = offset"
proof (induction pString offset origOffset pOffset rule: offsetLoop.induct)
  case (1 pString offset origOffset pOffset)
  show ?case
  proof (cases "origOffset < offset")
    case False
    with "1.prems"(1) have "q = pOffset" by (simp add: offsetLoop_stop)
    with False "1.prems" show ?thesis by simp
  next
    case lt: True
    show ?thesis
    proof (cases "pOffset < length pString")
      case False
      with lt "1.prems"(1) show ?thesis by (simp add: offsetLoop_panic)
    next
      case inb: True
      let ?o' = "if pString ! pOffset \<noteq> CHR 0x0A \<and> pString ! pOffset \<noteq> CHR '' ''
                 then origOffset + 1 else origOffset"
      from lt inb "1.prems"(1)
      have step: "offsetLoop pString offset ?o' (pOffset + 1) = Done q"
        by (simp only: offsetLoop_step)
      have cnt: "?o' = int (counted (take (pOffset + 1) pString))"
        using inb "1.prems"(3) by (simp add: counted_take_Suc inserted_def)
      have le: "?o' \<le> offset" using lt by simp
      have inb': "pOffset + 1 \<le> length pString" using inb by simp
      from "1.IH" [OF lt inb step inb' cnt le]
      show ?thesis by simp
    qed
  qed
qed

lemma offsetLoop_start:
  assumes "offsetLoop pString offset 0 0 = Done q"
  shows "q \<le> length pString"
    and "0 \<le> offset \<Longrightarrow> int (counted (take q pString)) = offset"
    and "offset \<le> 0 \<Longrightarrow> q = 0"
proof -
  show z: "offset \<le> 0 \<Longrightarrow> q = 0"
    using assms by (simp add: offsetLoop_stop)
  show "0 \<le> offset \<Longrightarrow> int (counted (take q pString)) = offset"
    using offsetLoop_inv [OF assms] by simp
  show "q \<le> length pString"
  proof (cases "0 \<le> offset")
    case True
    then show ?thesis using offsetLoop_inv [OF assms] by simp
  next
    case False
    then show ?thesis using z by simp
  qed
qed

text \<open>The loop returns exactly when the text has enough counted bytes.\<close>

lemma offsetLoop_returns:
  "offset \<le> int (counted pString) \<Longrightarrow>
   pOffset \<le> length pString \<Longrightarrow>
   origOffset = int (counted (take pOffset pString)) \<Longrightarrow>
   \<exists>q. offsetLoop pString offset origOffset pOffset = Done q"
proof (induction pString offset origOffset pOffset rule: offsetLoop.induct)
  case (1 pString offset origOffset pOffset)
  show ?case
  proof (cases "origOffset < offset")
    case False
    then show ?thesis by (simp add: offsetLoop_stop)
  next
    case lt: True
    have inb: "pOffset < length pString"
    proof (rule ccontr)
      assume "\<not> pOffset < length pString"
      with "1.prems"(2) have "take pOffset pString = pString" by simp
      with "1.prems"(3) have "origOffset = int (counted pString)" by simp
      with lt "1.prems"(1) show False by simp
    qed
    let ?o' = "if pString ! pOffset \<noteq> CHR 0x0A \<and> pString ! pOffset \<noteq> CHR '' ''
               then origOffset + 1 else origOffset"
    have cnt: "?o' = int (counted (take (pOffset + 1) pString))"
      using inb "1.prems"(3) by (simp add: counted_take_Suc inserted_def)
    have inb': "pOffset + 1 \<le> length pString" using inb by simp
    have "\<exists>q. offsetLoop pString offset ?o' (pOffset + 1) = Done q"
      by (rule "1.IH" [OF lt inb "1.prems"(1) inb' cnt])
    then show ?thesis
      by (simp only: offsetLoop_step [OF lt inb])
  qed
qed

lemma offsetLoop_total:
  "(\<exists>q. offsetLoop pString offset 0 0 = Done q) \<longleftrightarrow> offset \<le> int (counted pString)"
proof
  assume "\<exists>q. offsetLoop pString offset 0 0 = Done q"
  then obtain q where q: "offsetLoop pString offset 0 0 = Done q" ..
  show "offset \<le> int (counted pString)"
  proof (cases "0 \<le> offset")
    case True
    from offsetLoop_start(2) [OF q True] counted_take_le [of q pString]
    show ?thesis by linarith
  next
    case False
    then show ?thesis by simp
  qed
next
  assume "offset \<le> int (counted pString)"
  then show "\<exists>q. offsetLoop pString offset 0 0 = Done q"
    by (rule offsetLoop_returns) simp_all
qed

subsection \<open>Encoding\<close>

text \<open>
  Claim C7. For every Meta value, \<open>MarshalJSON\<close> returns exactly the stored opaque
  payload bytes, unchanged, together with the nil error: nothing is recomputed or
  re-serialized on encode.
\<close>

theorem C7_marshal_returns_blob:
  "MarshalJSON m = (Blob m, None)"
  by (simp add: MarshalJSON_def)

subsection \<open>The error formatter\<close>


text \<open>
  The document \<open>{"schema":"olm.bundle","name":}\<close> of the specification: the scanner
  rejects it at byte 31, \<open>json.Indent\<close> fails on it, and the formatter shows the raw
  bytes with the marker after byte 31.
\<close>

lemma unmarshal_missing_value:
  "json_Unmarshal golang doc_missing_value = Inl (SyntaxError msg_missing_value 31)"
  by code_simp




text \<open>
  When \<open>json.Indent\<close> fails and the offset lies in the document, the formatter returns
  the raw bytes with the marker at the offset.
\<close>

lemma formatter_fallback:
  assumes "json_Indent L data = Inl e" and "0 \<le> offset" and "offset \<le> int (length data)"
  shows "formatUnmarshallErrorString L data errmsg offset
         = Done (header errmsg offset @ take (nat offset) data @ '' <== '' @ drop (nat offset) data)"
  using assms by (simp add: formatUnmarshallErrorString_def)

text \<open>
  When \<open>json.Indent\<close> succeeds, the formatter panics exactly when the offset exceeds the
  number of bytes of the indented text that are neither a space nor a newline: the loop
  then reads \<open>pString[pOffset]\<close> past the end.
\<close>

lemma formatter_panics_iff:
  assumes "json_Indent L data = Inr pString"
  shows "(\<exists>p. formatUnmarshallErrorString L data errmsg offset = Panic p)
         \<longleftrightarrow> int (counted pString) < offset"
proof -
  have "(\<exists>p. offsetLoop pString offset 0 0 = Panic p)
        \<longleftrightarrow> \<not> (\<exists>q. offsetLoop pString offset 0 0 = Done q)"
    by (cases "offsetLoop pString offset 0 0") auto
  with offsetLoop_total [of pString offset] assms show ?thesis
    by (auto simp: formatUnmarshallErrorString_def split: outcome.splits)
qed

lemma indent_one_space: "json_Indent golang doc_one_space = Inr pretty_one_space"
  by code_simp

lemma loop_one_space: "offsetLoop pretty_one_space 19 0 0 = Done (length pretty_one_space)"
  by code_simp

lemma indent_two_spaces: "json_Indent golang doc_two_spaces = Inr pretty_two_spaces"
  by code_simp

lemma loop_two_spaces: "offsetLoop pretty_two_spaces 21 0 0 = Panic ''index out of range''"
  by code_simp

text \<open>
  Claim C2 (the code departs from it). The document \<open>{"name":"a b","x":1}\<close> is valid
  and compact, and offset 19 is the end of the value \<open>1\<close>, before the closing brace
  (the offset of the \<open>UnmarshalTypeError\<close> when \<open>x\<close> must be a string). The loop
  also skips the space inside \<open>"a b"\<close>, which the indenting did not introduce, so it
  walks one byte too far: the marker comes after the closing brace, at the very end of
  the indented document.
\<close>

theorem C2_marker_misplaced:
  "doc_one_space ! 19 = CHR ''}''
   \<and> formatUnmarshallErrorString golang doc_one_space errmsg 19
       = Done (header errmsg 19 @ pretty_one_space @ '' <== '')"
proof
  show "doc_one_space ! 19 = CHR ''}''"
    by (simp add: doc_one_space_def)
  show "formatUnmarshallErrorString golang doc_one_space errmsg 19
        = Done (header errmsg 19 @ pretty_one_space @ '' <== '')"
    by (simp add: formatUnmarshallErrorString_def indent_one_space loop_one_space)
qed

text \<open>
  Claim C3 (the code departs from it). The document \<open>{"name":"a b c","x":1}\<close> has 22
  bytes; offset 21 is the end of the value \<open>1\<close>. The indented document has only 20
  bytes that are neither a space nor a newline, so the loop indexes the indented text
  past its end: the formatter panics instead of returning a string.
\<close>

theorem C3_formatter_panics:
  "length doc_two_spaces = 22
   \<and> resolveUnmarshalErr golang doc_two_spaces (UnmarshalTypeError errmsg 21) text
       = Panic ''index out of range''"
proof
  show "length doc_two_spaces = 22"
    by (simp add: doc_two_spaces_def)
  show "resolveUnmarshalErr golang doc_two_spaces (UnmarshalTypeError errmsg 21) text
        = Panic ''index out of range''"
    by (simp add: resolveUnmarshalErr_def formatUnmarshallErrorString_def
          indent_two_spaces loop_two_spaces)
qed

subsection \<open>Decoding: the key sets and the duplicate keys\<close>

lemma insert_not_Nil [simp]: "List.insert k xs \<noteq> []"
  by (auto simp: List.insert_def)

lemma keysets_inv_empty: "keysets_inv L {} []"
  by (simp add: keysets_inv_def)

lemma keysets_inv_step:
  assumes "keysets_inv L S acc"
  shows "keysets_inv L (insert k S) (keySets_step L acc k)"
proof -
  let ?f = "cases_Fold L k"
  let ?old = "case map_of acc ?f of None \<Rightarrow> [] | Some ks \<Rightarrow> ks"
  have step: "keySets_step L acc k = AList.update ?f (List.insert k ?old) acc"
    by (simp add: keySets_step_def Let_def)
  have d: "distinct (map fst (keySets_step L acc k))"
    using assms by (simp add: step keysets_inv_def distinct_update)
  have "case map_of (keySets_step L acc k) f of
          None \<Rightarrow> {k' \<in> insert k S. cases_Fold L k' = f} = {}
        | Some xs \<Rightarrow> distinct xs \<and> xs \<noteq> [] \<and> set xs = {k' \<in> insert k S. cases_Fold L k' = f}" for f
  proof (cases "f = ?f")
    case True
    from assms have old: "distinct ?old \<and> set ?old = {k' \<in> S. cases_Fold L k' = ?f}"
      unfolding keysets_inv_def by (auto split: option.splits dest: spec [of _ ?f])
    with True show ?thesis
      by (auto simp: step update_conv')
  next
    case False
    from assms have "case map_of acc f of
          None \<Rightarrow> {k' \<in> S. cases_Fold L k' = f} = {}
        | Some xs \<Rightarrow> distinct xs \<and> xs \<noteq> [] \<and> set xs = {k' \<in> S. cases_Fold L k' = f}"
      unfolding keysets_inv_def by blast
    with False show ?thesis
      by (auto simp: step update_conv' split: option.splits)
  qed
  with d show ?thesis unfolding keysets_inv_def by blast
qed

lemma keysets_inv_foldl:
  "keysets_inv L S acc \<Longrightarrow> keysets_inv L (S \<union> set ks) (foldl (keySets_step L) acc ks)"
proof (induction ks arbitrary: S acc)
  case Nil
  then show ?case by simp
next
  case (Cons k ks)
  from Cons.IH [OF keysets_inv_step [OF Cons.prems, of k]]
  show ?case by simp
qed

lemma keysets_inv_keySets_of:
  assumes "range_ok L" and "distinct (map fst entries)"
  shows "keysets_inv L (fst ` set entries) (keySets_of L entries)"
proof -
  from assms have "set (MapRange L (map fst entries)) = fst ` set entries"
    by (simp add: range_ok_def)
  with keysets_inv_foldl [OF keysets_inv_empty, of L "MapRange L (map fst entries)"]
  show ?thesis by (simp add: keySets_of_def)
qed

lemma keySets_lookup:
  assumes "range_ok L" and "distinct (map fst entries)"
  shows "map_of (keySets_of L entries) f = None \<longleftrightarrow> bucket L entries f = {}"
    and "map_of (keySets_of L entries) f = Some xs \<Longrightarrow>
           distinct xs \<and> xs \<noteq> [] \<and> set xs = bucket L entries f"
proof -
  from keysets_inv_keySets_of [OF assms]
  have c: "case map_of (keySets_of L entries) f of
          None \<Rightarrow> bucket L entries f = {}
        | Some xs \<Rightarrow> distinct xs \<and> xs \<noteq> [] \<and> set xs = bucket L entries f"
    unfolding keysets_inv_def bucket_def by blast
  show "map_of (keySets_of L entries) f = None \<longleftrightarrow> bucket L entries f = {}"
    using c by (cases "map_of (keySets_of L entries) f") auto
  show "map_of (keySets_of L entries) f = Some xs \<Longrightarrow>
           distinct xs \<and> xs \<noteq> [] \<and> set xs = bucket L entries f"
    using c by simp
qed

lemma keySets_distinct:
  assumes "range_ok L" and "distinct (map fst entries)"
  shows "distinct (map fst (keySets_of L entries))"
  using keysets_inv_keySets_of [OF assms] by (simp add: keysets_inv_def)


text \<open>The second loop: one error for each folded key with two keys or more.\<close>

lemma distinct_concat_tagged:
  assumes "distinct fs"
    and "\<And>f. distinct (g f)"
    and "\<And>f e. e \<in> set (g f) \<Longrightarrow> tag e = f"
  shows "distinct (concat (map g fs))"
  using assms(1)
proof (induction fs)
  case Nil
  then show ?case by simp
next
  case (Cons f fs)
  have "set (g f) \<inter> (\<Union>f' \<in> set fs. set (g f')) = {}"
  proof (rule ccontr)
    assume "set (g f) \<inter> (\<Union>f' \<in> set fs. set (g f')) \<noteq> {}"
    then obtain e f' where "e \<in> set (g f)" "f' \<in> set fs" "e \<in> set (g f')" by blast
    with assms(3) have "f = f'" by metis
    with \<open>f' \<in> set fs\<close> Cons.prems show False by simp
  qed
  with Cons assms(2) show ?case by simp
qed

lemma sort_distinct: "distinct xs \<Longrightarrow> sort xs = sorted_list_of_set (set xs)"
  by (simp add: sorted_list_of_set_sort_remdups distinct_remdups_id)

lemma dupErrs_set:
  assumes "range_ok L" and "distinct (map fst entries)"
  shows "set (dupErrs_of L (keySets_of L entries))
         = {DuplicateKeys f (sorted_list_of_set (bucket L entries f)) | f.
              2 \<le> card (bucket L entries f)}" (is "?l = ?r")
proof -
  let ?KS = "keySets_of L entries"
  let ?g = "\<lambda>foldedKey. case map_of ?KS foldedKey of
          None \<Rightarrow> []
        | Some keys \<Rightarrow> if length keys \<noteq> 1 then [DuplicateKeys foldedKey (sort keys)] else []"
  have fs: "set (MapRange L (map fst ?KS)) = fst ` set ?KS"
    using assms(1) keySets_distinct [OF assms] by (simp add: range_ok_def)
  have l: "?l = (\<Union>f \<in> fst ` set ?KS. set (?g f))"
    by (simp add: dupErrs_of_def fs)
  have g: "set (?g f) = (if 2 \<le> card (bucket L entries f)
                          then {DuplicateKeys f (sorted_list_of_set (bucket L entries f))} else {})" for f
  proof (cases "map_of ?KS f")
    case None
    with keySets_lookup(1) [OF assms, of f] show ?thesis by simp
  next
    case (Some xs)
    from keySets_lookup(2) [OF assms Some]
    have xs: "distinct xs" "xs \<noteq> []" "set xs = bucket L entries f" by simp_all
    then have "card (bucket L entries f) = length xs"
      by (metis distinct_card)
    moreover have "0 < length xs" using xs by simp
    moreover have "length xs \<noteq> 1 \<longleftrightarrow> 2 \<le> length xs" using \<open>0 < length xs\<close> by arith
    ultimately show ?thesis using Some xs(1,3)
      by (simp add: sort_distinct)
  qed
  have dom: "f \<notin> fst ` set ?KS \<Longrightarrow> \<not> 2 \<le> card (bucket L entries f)" for f
  proof -
    assume "f \<notin> fst ` set ?KS"
    then have "map_of ?KS f = None" by (simp add: map_of_eq_None_iff)
    with keySets_lookup(1) [OF assms, of f] show ?thesis by simp
  qed
  have dom': "2 \<le> card (bucket L entries f) \<Longrightarrow> f \<in> fst ` set ?KS" for f
    using dom [of f] by blast
  show ?thesis
    unfolding l using dom' by (auto simp: g split: if_splits)
qed

lemma dupErrs_distinct:
  assumes "range_ok L" and "distinct (map fst entries)"
  shows "distinct (dupErrs_of L (keySets_of L entries))"
proof -
  have "distinct (MapRange L (map fst (keySets_of L entries)))"
    using assms(1) keySets_distinct [OF assms] by (simp add: range_ok_def)
  then show ?thesis
    unfolding dupErrs_of_def
    by (rule distinct_concat_tagged [where tag = "\<lambda>e. case e of DuplicateKeys f ks \<Rightarrow> f | _ \<Rightarrow> []"])
       (auto split: option.splits if_splits)
qed

lemma collision_card:
  assumes "k1 \<in> fst ` set entries" "k2 \<in> fst ` set entries" "k1 \<noteq> k2"
    and "cases_Fold L k1 = cases_Fold L k2"
  shows "2 \<le> card (bucket L entries (cases_Fold L k1))"
proof -
  have fin: "finite (bucket L entries (cases_Fold L k1))" by (simp add: bucket_def)
  have "{k1, k2} \<subseteq> bucket L entries (cases_Fold L k1)"
    using assms by (auto simp: bucket_def)
  from card_mono [OF fin this] assms(3) show ?thesis by simp
qed

text \<open>
  Claim C1. When two distinct keys of the decoded object have the same folded form,
  decode fails with one aggregate error. The aggregate holds exactly one
  duplicate-keys error for each folded key that two or more keys fold to, and that
  error lists all the keys that fold to it, sorted. The record is left as it was.
\<close>

theorem C1_duplicate_keys:
  assumes "range_ok L"
    and "json_Unmarshal L blob = Inr (Some entries)"
    and "distinct (map fst entries)"
    and "k1 \<in> fst ` set entries" and "k2 \<in> fst ` set entries" and "k1 \<noteq> k2"
    and "cases_Fold L k1 = cases_Fold L k2"
  shows "\<exists>errs. UnmarshalJSON L m blob = Done (Some (Aggregate errs), m)
           \<and> distinct errs
           \<and> set errs = {DuplicateKeys f (sorted_list_of_set {k \<in> fst ` set entries. cases_Fold L k = f}) | f.
                          2 \<le> card {k \<in> fst ` set entries. cases_Fold L k = f}}
           \<and> DuplicateKeys (cases_Fold L k1)
                (sorted_list_of_set {k \<in> fst ` set entries. cases_Fold L k = cases_Fold L k1}) \<in> set errs"
proof -
  let ?errs = "dupErrs_of L (keySets_of L entries)"
  have set: "set ?errs = {DuplicateKeys f (sorted_list_of_set (bucket L entries f)) | f.
              2 \<le> card (bucket L entries f)}"
    by (rule dupErrs_set [OF assms(1,3)])
  have mem: "DuplicateKeys (cases_Fold L k1) (sorted_list_of_set (bucket L entries (cases_Fold L k1)))
             \<in> set ?errs"
    unfolding set using collision_card [OF assms(4-7)] by blast
  then have ne: "0 < length ?errs" by (cases ?errs) auto
  then have "extractUniqueMetaKeys L (Some entries) m = Done (Some (Aggregate ?errs), m)"
    by (simp add: extractUniqueMetaKeys_def NewAggregate_def)
  then have "UnmarshalJSON L m blob = Done (Some (Aggregate ?errs), m)"
    using assms(2) by (simp add: UnmarshalJSON_def)
  with set mem dupErrs_distinct [OF assms(1,3)] show ?thesis
    unfolding bucket_def by blast
qed

lemma range_ok_golang: "range_ok golang"
  by (simp add: range_ok_def golang_def)

lemma unmarshal_dup:
  "json_Unmarshal golang doc_dup
   = Inr (Some [(''Schema'', JString ''dup''), (''schema'', JString ''olm.package'')])"
  by code_simp

lemma decode_dup:
  "UnmarshalJSON golang zeroMeta doc_dup
   = Done (Some (Aggregate [DuplicateKeys ''schema'' [''Schema'', ''schema'']]), zeroMeta)"
  by code_simp

theorem C1_duplicate_keys_witness:
  "\<exists>errs. UnmarshalJSON golang zeroMeta doc_dup = Done (Some (Aggregate errs), zeroMeta)
     \<and> distinct errs
     \<and> set errs = {DuplicateKeys f (sorted_list_of_set
                      {k \<in> fst ` set [(''Schema'', JString ''dup''), (''schema'', JString ''olm.package'')].
                         cases_Fold golang k = f}) | f.
                    2 \<le> card {k \<in> fst ` set [(''Schema'', JString ''dup''), (''schema'', JString ''olm.package'')].
                         cases_Fold golang k = f}}
     \<and> DuplicateKeys (cases_Fold golang ''schema'')
          (sorted_list_of_set
             {k \<in> fst ` set [(''Schema'', JString ''dup''), (''schema'', JString ''olm.package'')].
                cases_Fold golang k = cases_Fold golang ''schema''}) \<in> set errs"
proof (rule C1_duplicate_keys [OF range_ok_golang unmarshal_dup, of "''schema''" "''Schema''"])
  show "cases_Fold golang ''schema'' = cases_Fold golang ''Schema''"
    by code_simp
qed simp_all

end
